theory Spec2Isabelle
  imports Complex_Main
begin

section \<open>Strings\<close>

text \<open>
  Python's \<^verbatim>\<open>str.lower\<close> and \<^verbatim>\<open>str.capitalize\<close> on ASCII text: the 26 letters change
  case, every other character is kept. Floats are read as the real numbers they denote;
  the functions below only compare them and pass them on.
\<close>

definition lower_char :: "char \<Rightarrow> char" where
  "lower_char c =
     (case map_of (zip ''ABCDEFGHIJKLMNOPQRSTUVWXYZ'' ''abcdefghijklmnopqrstuvwxyz'') c of
        Some d \<Rightarrow> d
      | None \<Rightarrow> c)"

definition upper_char :: "char \<Rightarrow> char" where
  "upper_char c =
     (case map_of (zip ''abcdefghijklmnopqrstuvwxyz'' ''ABCDEFGHIJKLMNOPQRSTUVWXYZ'') c of
        Some d \<Rightarrow> d
      | None \<Rightarrow> c)"

definition lower :: "string \<Rightarrow> string" where
  "lower s = map lower_char s"

fun capitalize :: "string \<Rightarrow> string" where
  "capitalize [] = []"
| "capitalize (c # cs) = upper_char c # lower cs"

fun startswith :: "string \<Rightarrow> string \<Rightarrow> bool" where
  "startswith s [] = True"
| "startswith [] (k # ks) = False"
| "startswith (c # cs) (k # ks) = (c = k \<and> startswith cs ks)"

text \<open>\<^verbatim>\<open>kw in text\<close>: the keyword occurs as a contiguous substring.\<close>

fun contains :: "string \<Rightarrow> string \<Rightarrow> bool" where
  "contains [] kw = (kw = [])"
| "contains (c # cs) kw = (startswith (c # cs) kw \<or> contains cs kw)"

section \<open>Data model\<close>

datatype error = AttributeError | OtherError

text \<open>
  \<^verbatim>\<open>Token\<close> of \<^verbatim>\<open>polymarket_client.py\<close> is a pydantic model with three attributes.
  \<^verbatim>\<open>PolymarketClient\<close> fills \<^verbatim>\<open>Market.tokens\<close> with such instances.
  \<^verbatim>\<open>scorer.py\<close> reads each token through the mapping protocol, \<^verbatim>\<open>token.get("price")\<close> and
  \<^verbatim>\<open>token.get("outcome", "")\<close>, which a plain dictionary answers and a pydantic model
  does not have. Both shapes are values here. Of a dictionary only the two keys that
  are read matter: \<open>dict_price = None\<close> stands for an absent key and for a null price
  (\<^verbatim>\<open>get\<close> returns \<^verbatim>\<open>None\<close> for both), \<open>dict_outcome = None\<close> for an absent key.
\<close>

record Token =
  token_id :: string
  outcome :: string
  price :: "real option"

record TokenDict =
  dict_outcome :: "string option"
  dict_price :: "real option"

datatype token_value = TokenObj Token | TokenMap TokenDict

record Market =
  condition_id :: string
  question :: string
  tokens :: "token_value list"
  closed' :: bool
  accepting_orders :: bool

record Prediction =
  pid :: "string option"
  market_id :: string
  sport :: string
  event_name :: string
  predicted_outcome :: string
  historical_confidence :: real
  sentiment_confidence :: real
  hybrid_confidence :: real
  actual_outcome :: "string option"
  is_correct :: "bool option"
  created_at :: "string option"
  resolved_at :: "string option"

record ModelMetrics =
  model_type :: string
  accuracy_7d :: real
  accuracy_30d :: real
  total_predictions :: int
  correct_predictions :: int
  updated_at :: "string option"

section \<open>Scorer: resolved outcome of a market\<close>

text \<open>\<^verbatim>\<open>token.get("price")\<close> and \<^verbatim>\<open>token.get("outcome", "")\<close>.\<close>

fun token_get_price :: "token_value \<Rightarrow> error + real option" where
  "token_get_price (TokenObj t) = Inl AttributeError"
| "token_get_price (TokenMap d) = Inr (dict_price d)"

definition dict_label :: "TokenDict \<Rightarrow> string" where
  "dict_label d = (case dict_outcome d of None \<Rightarrow> [] | Some s \<Rightarrow> s)"

fun token_get_outcome :: "token_value \<Rightarrow> error + string" where
  "token_get_outcome (TokenObj t) = Inl AttributeError"
| "token_get_outcome (TokenMap d) = Inr (dict_label d)"

text \<open>
  One \<^verbatim>\<open>for token in tokens\<close> loop of \<^verbatim>\<open>get_market_outcome\<close>: return the capitalized
  outcome of the first token whose price is present and passes the test; \<open>Inr None\<close>
  when the loop runs to its end.
\<close>

fun scan_tokens :: "(real \<Rightarrow> bool) \<Rightarrow> token_value list \<Rightarrow> error + string option" where
  "scan_tokens wins [] = Inr None"
| "scan_tokens wins (t # ts) =
     (case token_get_price t of
        Inl e \<Rightarrow> Inl e
      | Inr None \<Rightarrow> scan_tokens wins ts
      | Inr (Some p) \<Rightarrow>
          if wins p
          then (case token_get_outcome t of
                  Inl e \<Rightarrow> Inl e
                | Inr s \<Rightarrow> Inr (Some (capitalize s)))
          else scan_tokens wins ts)"

definition get_market_outcome :: "Market \<Rightarrow> error + string option" where
  "get_market_outcome market =
     (if \<not> closed' market then Inr None
      else (case scan_tokens (\<lambda>p. p = 1) (tokens market) of
              Inl e \<Rightarrow> Inl e
            | Inr (Some s) \<Rightarrow> Inr (Some s)
            | Inr None \<Rightarrow> scan_tokens (\<lambda>p. p > 0.95) (tokens market)))"

section \<open>Scorer: the local prediction store\<close>

text \<open>
  The fallback store of \<^verbatim>\<open>SupabaseClient\<close> is the file \<^verbatim>\<open>predictions.json\<close>, a list of
  rows in insertion order. A missing file reads as the empty list: both
  \<^verbatim>\<open>_get_predictions_local\<close> and \<^verbatim>\<open>_resolve_prediction_local\<close> answer it as they answer
  an empty one. \<open>clock_reads\<close> counts the calls of \<^verbatim>\<open>datetime.now\<close>; the \<open>k\<close>-th reading
  is \<open>clock k\<close>, a parameter.
\<close>

record local_db =
  rows :: "Prediction list"
  clock_reads :: nat

text \<open>Truthiness of an optional string: \<^verbatim>\<open>None\<close> and \<^verbatim>\<open>""\<close> are false.\<close>

fun truthy :: "string option \<Rightarrow> bool" where
  "truthy None = False"
| "truthy (Some s) = (s \<noteq> [])"

text \<open>
  The loop of \<^verbatim>\<open>_get_predictions_local\<close>: a row is appended first and the length
  compared with \<^verbatim>\<open>limit\<close> afterwards.
\<close>

fun get_predictions_loop ::
  "int \<Rightarrow> string option \<Rightarrow> bool \<Rightarrow> Prediction list \<Rightarrow> Prediction list \<Rightarrow> Prediction list" where
  "get_predictions_loop limit sp only_resolved [] result = result"
| "get_predictions_loop limit sp only_resolved (p # ps) result =
     (if truthy sp \<and> Some (sport p) \<noteq> sp
      then get_predictions_loop limit sp only_resolved ps result
      else if only_resolved \<and> \<not> truthy (actual_outcome p)
      then get_predictions_loop limit sp only_resolved ps result
      else if int (length (result @ [p])) \<ge> limit then result @ [p]
      else get_predictions_loop limit sp only_resolved ps (result @ [p]))"

definition get_predictions_local ::
  "int \<Rightarrow> string option \<Rightarrow> bool \<Rightarrow> local_db \<Rightarrow> Prediction list" where
  "get_predictions_local limit sp only_resolved db =
     get_predictions_loop limit sp only_resolved (rows db) []"

text \<open>The three assignments \<^verbatim>\<open>_resolve_prediction_local\<close> makes to the matching row.\<close>

definition resolve_row :: "string \<Rightarrow> string \<Rightarrow> Prediction \<Rightarrow> Prediction" where
  "resolve_row now oc p =
     p\<lparr>actual_outcome := Some oc,
       is_correct := Some (lower (predicted_outcome p) = lower oc),
       resolved_at := Some now\<rparr>"

text \<open>The first row whose id equals \<^verbatim>\<open>prediction_id\<close> is rewritten and returned.\<close>

fun resolve_rows ::
  "string \<Rightarrow> string option \<Rightarrow> string \<Rightarrow> Prediction list \<Rightarrow> (Prediction \<times> Prediction list) option" where
  "resolve_rows now i oc [] = None"
| "resolve_rows now i oc (p # ps) =
     (if pid p = i then Some (resolve_row now oc p, resolve_row now oc p # ps)
      else (case resolve_rows now i oc ps of
              None \<Rightarrow> None
            | Some (r, ps') \<Rightarrow> Some (r, p # ps')))"

type_synonym 'st resolver = "string option \<Rightarrow> string \<Rightarrow> 'st \<Rightarrow> error + (Prediction option \<times> 'st)"

definition resolve_prediction_local :: "(nat \<Rightarrow> string) \<Rightarrow> local_db resolver" where
  "resolve_prediction_local clock i oc db =
     (case resolve_rows (clock (clock_reads db)) i oc (rows db) of
        None \<Rightarrow> Inr (None, db)
      | Some (r, rows') \<Rightarrow> Inr (Some r, db\<lparr>rows := rows', clock_reads := Suc (clock_reads db)\<rparr>))"

section \<open>Scorer: scoring pending predictions\<close>

text \<open>
  \<^verbatim>\<open>score_prediction\<close> hands the prediction's id and the outcome to the persistence
  collaborator \<open>rs\<close> (\<^verbatim>\<open>resolve_prediction\<close>) and returns the resolved row, or the
  prediction as it was when the collaborator returns \<^verbatim>\<open>None\<close>.
\<close>

definition score_prediction ::
  "'st resolver \<Rightarrow> Prediction \<Rightarrow> string \<Rightarrow> 'st \<Rightarrow> error + (Prediction \<times> 'st)" where
  "score_prediction rs prediction oc st =
     (case rs (pid prediction) oc st of
        Inl e \<Rightarrow> Inl e
      | Inr (Some resolved, st') \<Rightarrow> Inr (resolved, st')
      | Inr (None, st') \<Rightarrow> Inr (prediction, st'))"

record results =
  total' :: int
  scored :: int
  correct :: int
  wrong :: int
  still_pending :: int

text \<open>\<^verbatim>\<open>{m.condition_id: m for m in all_markets}\<close>: a later market replaces an earlier one.\<close>

definition market_lookup :: "Market list \<Rightarrow> (string \<rightharpoonup> Market)" where
  "market_lookup all_markets = fold (\<lambda>m lk. lk(condition_id m \<mapsto> m)) all_markets Map.empty"

text \<open>
  The \<^verbatim>\<open>for prediction in pending\<close> loop. Nothing in it catches an exception: one raised
  by \<^verbatim>\<open>get_market_outcome\<close> or by the collaborator ends the run without a result.
\<close>

fun score_loop ::
  "'st resolver \<Rightarrow> (string \<rightharpoonup> Market) \<Rightarrow> Prediction list \<Rightarrow> results \<Rightarrow> 'st \<Rightarrow> error + (results \<times> 'st)" where
  "score_loop rs lk [] res st = Inr (res, st)"
| "score_loop rs lk (p # ps) res st =
     (case lk (market_id p) of
        None \<Rightarrow> score_loop rs lk ps (res\<lparr>still_pending := still_pending res + 1\<rparr>) st
      | Some market \<Rightarrow>
          (case get_market_outcome market of
             Inl e \<Rightarrow> Inl e
           | Inr None \<Rightarrow> score_loop rs lk ps (res\<lparr>still_pending := still_pending res + 1\<rparr>) st
           | Inr (Some oc) \<Rightarrow>
               (case score_prediction rs p oc st of
                  Inl e \<Rightarrow> Inl e
                | Inr (sc, st') \<Rightarrow>
                    if is_correct sc = Some True
                    then score_loop rs lk ps (res\<lparr>scored := scored res + 1, correct := correct res + 1\<rparr>) st'
                    else score_loop rs lk ps (res\<lparr>scored := scored res + 1, wrong := wrong res + 1\<rparr>) st')))"

text \<open>
  \<^verbatim>\<open>score_pending_predictions\<close>, given what \<^verbatim>\<open>get_predictions\<close> and
  \<^verbatim>\<open>get_sports_markets\<close> returned.
\<close>

definition score_pending_predictions ::
  "'st resolver \<Rightarrow> Prediction list \<Rightarrow> Market list \<Rightarrow> 'st \<Rightarrow> error + (results \<times> 'st)" where
  "score_pending_predictions rs all_predictions all_markets st =
     (let pending = filter (\<lambda>p. actual_outcome p = None) all_predictions in
      if pending = []
      then Inr (\<lparr>total' = 0, scored = 0, correct = 0, wrong = 0, still_pending = 0\<rparr>, st)
      else score_loop rs (market_lookup all_markets) pending
             \<lparr>total' = int (length pending), scored = 0, correct = 0, wrong = 0, still_pending = 0\<rparr> st)"

text \<open>The same with the local store as the persistence collaborator.\<close>

definition score_pending_local ::
  "(nat \<Rightarrow> string) \<Rightarrow> string option \<Rightarrow> int \<Rightarrow> Market list \<Rightarrow> local_db \<Rightarrow> error + (results \<times> local_db)" where
  "score_pending_local clock sp limit all_markets db =
     score_pending_predictions (resolve_prediction_local clock)
       (get_predictions_local limit sp False db) all_markets db"

section \<open>Scorer: accuracy metrics\<close>

text \<open>The confidence \<^verbatim>\<open>update_metrics\<close> selects for a stage (\<^verbatim>\<open>get_conf\<close>).\<close>

definition get_conf :: "string \<Rightarrow> Prediction \<Rightarrow> real" where
  "get_conf stage p =
     (if stage = ''historical'' then historical_confidence p
      else if stage = ''sentiment'' then sentiment_confidence p
      else hybrid_confidence p)"

text \<open>The inner loop of \<^verbatim>\<open>update_metrics\<close>, on the pair \<open>(total, correct)\<close>.\<close>

fun count_stage :: "string \<Rightarrow> Prediction list \<Rightarrow> int \<times> int \<Rightarrow> int \<times> int" where
  "count_stage stage [] tc = tc"
| "count_stage stage (pred # preds) (t, c) =
     (let model_prediction = (if get_conf stage pred > 0.5 then ''Yes'' else ''No'') in
      if truthy (actual_outcome pred)
      then (if Some (lower model_prediction) = map_option lower (actual_outcome pred)
            then count_stage stage preds (t + 1, c + 1)
            else count_stage stage preds (t + 1, c))
      else count_stage stage preds (t, c))"

definition stage_metrics :: "string \<Rightarrow> Prediction list \<Rightarrow> ModelMetrics" where
  "stage_metrics stage resolved =
     (case count_stage stage resolved (0, 0) of
        (t, c) \<Rightarrow>
          (let accuracy = (if t > 0 then real_of_int c / real_of_int t else 0) in
           \<lparr>model_type = stage, accuracy_7d = accuracy, accuracy_30d = accuracy,
            total_predictions = t, correct_predictions = c, updated_at = None\<rparr>))"

text \<open>
  \<^verbatim>\<open>SupabaseClient.update_model_metrics\<close>, given the predictions its own
  \<^verbatim>\<open>get_predictions(limit=1000, only_resolved=True)\<close> returned: the row it builds from
  the \<^verbatim>\<open>is_correct\<close> flags, and the \<^verbatim>\<open>model_metrics\<close> table after the upsert, which
  happens only when a remote store is connected.
\<close>

definition update_model_metrics ::
  "bool \<Rightarrow> string \<Rightarrow> Prediction list \<Rightarrow> string \<Rightarrow> (string \<rightharpoonup> ModelMetrics)
     \<Rightarrow> ModelMetrics option \<times> (string \<rightharpoonup> ModelMetrics)" where
  "update_model_metrics is_connected now predictions stage table =
     (if predictions = [] then (None, table)
      else
        (let t = int (length predictions);
             c = int (length (filter (\<lambda>p. is_correct p = Some True) predictions));
             accuracy = (if t > 0 then real_of_int c / real_of_int t else 0);
             metrics = \<lparr>model_type = stage, accuracy_7d = accuracy, accuracy_30d = accuracy,
                        total_predictions = t, correct_predictions = c, updated_at = Some now\<rparr>
         in (Some metrics, if is_connected then table(stage \<mapsto> metrics) else table)))"

text \<open>
  The \<^verbatim>\<open>for model_type in [...]\<close> loop of \<^verbatim>\<open>update_metrics\<close>: the returned dictionary
  (in insertion order) and the \<^verbatim>\<open>model_metrics\<close> table.
\<close>

fun update_metrics_loop ::
  "bool \<Rightarrow> string \<Rightarrow> Prediction list \<Rightarrow> string list
     \<Rightarrow> (string \<times> ModelMetrics) list \<times> (string \<rightharpoonup> ModelMetrics)
     \<Rightarrow> (string \<times> ModelMetrics) list \<times> (string \<rightharpoonup> ModelMetrics)" where
  "update_metrics_loop is_connected now resolved [] (metrics, table) = (metrics, table)"
| "update_metrics_loop is_connected now resolved (stage # stages) (metrics, table) =
     update_metrics_loop is_connected now resolved stages
       (metrics @ [(stage, stage_metrics stage resolved)],
        snd (update_model_metrics is_connected now resolved stage table))"

definition update_metrics ::
  "bool \<Rightarrow> string \<Rightarrow> Prediction list \<Rightarrow> (string \<rightharpoonup> ModelMetrics)
     \<Rightarrow> (string \<times> ModelMetrics) list \<times> (string \<rightharpoonup> ModelMetrics)" where
  "update_metrics is_connected now resolved table =
     (if resolved = [] then ([], table)
      else update_metrics_loop is_connected now resolved
             [''historical'', ''sentiment'', ''hybrid''] ([], table))"

section \<open>Predictor: feature extraction\<close>

record features =
  feat_market_id :: string
  feat_question :: string
  feat_sport :: string
  home_yes_price :: real
  away_yes_price :: real
  price_spread :: real
  is_home_favorite :: bool
  market_edge :: real
  home_wins :: int
  home_losses :: int
  away_wins :: int
  away_losses :: int
  home_win_pct :: real
  away_win_pct :: real
  win_pct_diff :: real

definition SPORT_KEYWORDS :: "(string \<times> string list) list" where
  "SPORT_KEYWORDS =
     [(''nba'', [''nba'', ''basketball'', ''lakers'', ''celtics'', ''warriors'', ''bulls'']),
      (''nfl'', [''nfl'', ''football'', ''chiefs'', ''eagles'', ''cowboys'', ''patriots'']),
      (''mlb'', [''mlb'', ''baseball'', ''yankees'', ''dodgers'', ''red sox'', ''cubs'']),
      (''nhl'', [''nhl'', ''hockey'', ''bruins'', ''rangers'', ''penguins'', ''maple leafs'']),
      (''mma'', [''ufc'', ''mma'', ''fight'', ''bellator'']),
      (''soccer'', [''soccer'', ''mls'', ''premier league'', ''la liga''])]"

fun detect_in :: "(string \<times> string list) list \<Rightarrow> string \<Rightarrow> string" where
  "detect_in [] text_lower = ''other''"
| "detect_in ((sp, keywords) # rest) text_lower =
     (if list_ex (\<lambda>kw. contains text_lower kw) keywords then sp
      else detect_in rest text_lower)"

definition detect_sport :: "string \<Rightarrow> string" where
  "detect_sport txt = detect_in SPORT_KEYWORDS (lower txt)"

text \<open>
  \<^verbatim>\<open>extract_features\<close> reads a token's attributes with \<^verbatim>\<open>hasattr\<close>/\<^verbatim>\<open>getattr\<close>: a
  \<^verbatim>\<open>Token\<close> has them, a dictionary has not and yields the defaults.
\<close>

fun token_attr_outcome :: "token_value \<Rightarrow> string" where
  "token_attr_outcome (TokenObj t) = lower (outcome t)"
| "token_attr_outcome (TokenMap d) = []"

fun token_attr_price :: "token_value \<Rightarrow> real option" where
  "token_attr_price (TokenObj t) = price t"
| "token_attr_price (TokenMap d) = None"

text \<open>The token loop on the pair \<open>(yes_price, no_price)\<close>; a later token overwrites.\<close>

fun read_prices :: "token_value list \<Rightarrow> real \<times> real \<Rightarrow> real \<times> real" where
  "read_prices [] yn = yn"
| "read_prices (t # ts) (yes_price, no_price) =
     (case token_attr_price t of
        None \<Rightarrow> read_prices ts (yes_price, no_price)
      | Some p \<Rightarrow>
          if token_attr_outcome t = ''yes'' then read_prices ts (p, no_price)
          else if token_attr_outcome t = ''no'' then read_prices ts (yes_price, p)
          else read_prices ts (yes_price, no_price))"

definition extract_features :: "Market \<Rightarrow> features" where
  "extract_features market =
     (case read_prices (tokens market) (0.5, 0.5) of
        (yes_price, no_price) \<Rightarrow>
          \<lparr>feat_market_id = condition_id market,
           feat_question = question market,
           feat_sport = detect_sport (question market),
           home_yes_price = yes_price,
           away_yes_price = no_price,
           price_spread = \<bar>yes_price - no_price\<bar>,
           is_home_favorite = (yes_price > no_price),
           market_edge = yes_price - 0.5,
           home_wins = 0, home_losses = 0, away_wins = 0, away_losses = 0,
           home_win_pct = 0.5, away_win_pct = 0.5, win_pct_diff = 0\<rparr>)"

section \<open>Predictor: model artifacts and their loading\<close>

text \<open>
  A model artifact is opaque. A stage artifact stands for what the \<^verbatim>\<open>try\<close> block around
  it computes from the feature dictionary and the feature names (the projection
  \<^verbatim>\<open>to_model_input\<close> followed by the artifact's probability call): a probability, or
  an exception. A meta-learner maps the six meta-features to a probability or raises.
\<close>

type_synonym stage_artifact = "features \<Rightarrow> string list \<Rightarrow> error + real"

type_synonym meta_artifact = "real list \<Rightarrow> error + real"

record ModelLoader =
  historical_model :: "stage_artifact option"
  sentiment_model :: "stage_artifact option"
  meta_learner :: "meta_artifact option"
  scaler_params :: "string option"
  feature_names :: "string list option"
  use_tf :: bool

text \<open>\<^verbatim>\<open>ModelLoader.__init__\<close>.\<close>

definition new_loader :: ModelLoader where
  "new_loader =
     \<lparr>historical_model = None, sentiment_model = None, meta_learner = None,
      scaler_params = None, feature_names = None, use_tf = False\<rparr>"








section \<open>Predictor: one market\<close>

text \<open>
  A stage's confidence: \<open>0.5\<close> unless the artifact is loaded and \<^verbatim>\<open>feature_names\<close> is a
  non-empty list; an exception inside the \<^verbatim>\<open>try\<close> block leaves the \<open>0.5\<close>.
\<close>

definition stage_confidence ::
  "stage_artifact option \<Rightarrow> string list option \<Rightarrow> features \<Rightarrow> real" where
  "stage_confidence model names fs =
     (case model of
        None \<Rightarrow> 0.5
      | Some a \<Rightarrow>
          (case names of
             None \<Rightarrow> 0.5
           | Some ns \<Rightarrow>
               if ns = [] then 0.5
               else (case a fs ns of Inl e \<Rightarrow> 0.5 | Inr p \<Rightarrow> p)))"

definition hybrid_of :: "meta_artifact option \<Rightarrow> real \<Rightarrow> real \<Rightarrow> features \<Rightarrow> real" where
  "hybrid_of meta hist_conf sent_conf fs =
     (case meta of
        Some g \<Rightarrow>
          (case g [hist_conf, sent_conf, hist_conf - sent_conf, (hist_conf + sent_conf) / 2,
                   \<bar>hist_conf - 0.5\<bar>, \<bar>sent_conf - 0.5\<bar>] of
             Inr p \<Rightarrow> p
           | Inl e \<Rightarrow> (hist_conf + sent_conf) / 2)
      | None \<Rightarrow> home_yes_price fs)"

definition predict_market :: "ModelLoader \<Rightarrow> Market \<Rightarrow> Prediction option" where
  "predict_market models market =
     (let fs = extract_features market in
      if feat_sport fs = ''other'' then None
      else
        (let hist_conf = stage_confidence (historical_model models) (feature_names models) fs;
             sent_conf = stage_confidence (sentiment_model models) (feature_names models) fs;
             hybrid_conf = hybrid_of (meta_learner models) hist_conf sent_conf fs
         in Some \<lparr>pid = None,
                  market_id = condition_id market,
                  sport = feat_sport fs,
                  event_name = take 200 (question market),
                  predicted_outcome = (if hybrid_conf > 0.5 then ''Yes'' else ''No''),
                  historical_confidence = hist_conf,
                  sentiment_confidence = sent_conf,
                  hybrid_confidence = hybrid_conf,
                  actual_outcome = None,
                  is_correct = None,
                  created_at = None,
                  resolved_at = None\<rparr>))"

section \<open>Predictor: a batch of markets\<close>





text \<open>
  \<^verbatim>\<open>save_predictions\<close>, for any \<^verbatim>\<open>save_prediction\<close> \<open>sv\<close> over a store: a save that raises
  is logged and not counted.
\<close>

fun save_predictions ::
  "('st \<Rightarrow> Prediction \<Rightarrow> error + 'st) \<Rightarrow> Prediction list \<Rightarrow> int \<times> 'st \<Rightarrow> int \<times> 'st" where
  "save_predictions sv [] (saved, st) = (saved, st)"
| "save_predictions sv (pred # preds) (saved, st) =
     (case sv st pred of
        Inl e \<Rightarrow> save_predictions sv preds (saved, st)
      | Inr st' \<Rightarrow> save_predictions sv preds (saved + 1, st'))"

section \<open>Auxiliary notions for the statements\<close>



text \<open>
  The raw yes-price in the words of the specification: the price of the market's
  \<open>Yes\<close> token, \<open>0.5\<close> when no \<open>Yes\<close> token carries a price. \<open>yes_prices\<close> lists the
  prices of the \<^verbatim>\<open>Token\<close> instances whose outcome is \<open>yes\<close> in any letter case; should a
  market carry several, the last one counts.
\<close>

definition yes_prices :: "token_value list \<Rightarrow> real list" where
  "yes_prices ts =
     List.map_filter
       (\<lambda>t. case t of
               TokenObj k \<Rightarrow> (if lower (outcome k) = ''yes'' then price k else None)
             | TokenMap d \<Rightarrow> None) ts"

definition raw_yes_price :: "Market \<Rightarrow> real" where
  "raw_yes_price market =
     (if yes_prices (tokens market) = [] then 0.5 else last (yes_prices (tokens market)))"

section \<open>Example inputs\<close>

text \<open>A closed market as \<^verbatim>\<open>get_market_outcome\<close> reads it, resolved to \<open>Yes\<close>.\<close>

definition example_closed_market :: Market where
  "example_closed_market =
     \<lparr>condition_id = ''0xd1'', question = ''Will the Lakers win?'',
      tokens = [TokenMap \<lparr>dict_outcome = Some ''Yes'', dict_price = Some 1\<rparr>,
                TokenMap \<lparr>dict_outcome = Some ''No'', dict_price = Some 0\<rparr>],
      closed' = True, accepting_orders = False\<rparr>"

text \<open>A closed market as \<^verbatim>\<open>PolymarketClient\<close> builds it, with \<^verbatim>\<open>Token\<close> instances.\<close>

definition example_object_market :: Market where
  "example_object_market =
     \<lparr>condition_id = ''0xf1'', question = ''Will the Celtics win?'',
      tokens = [TokenObj \<lparr>token_id = ''t1'', outcome = ''Yes'', price = Some 1\<rparr>,
                TokenObj \<lparr>token_id = ''t2'', outcome = ''No'', price = Some 0\<rparr>],
      closed' = True, accepting_orders = False\<rparr>"

text \<open>A tradable market with the given \<open>Yes\<close> and \<open>No\<close> prices.\<close>

definition example_open_market :: "real \<Rightarrow> real \<Rightarrow> Market" where
  "example_open_market y n =
     \<lparr>condition_id = ''0xe1'', question = ''Will the Lakers win?'',
      tokens = [TokenObj \<lparr>token_id = ''t1'', outcome = ''Yes'', price = Some y\<rparr>,
                TokenObj \<lparr>token_id = ''t2'', outcome = ''No'', price = Some n\<rparr>],
      closed' = False, accepting_orders = True\<rparr>"

text \<open>A stored pending prediction with id, market and label; a resolved one.\<close>

definition example_pending :: "string \<Rightarrow> string \<Rightarrow> string \<Rightarrow> Prediction" where
  "example_pending i m lab =
     \<lparr>pid = Some i, market_id = m, sport = ''nba'', event_name = ''Will the Lakers win?'',
      predicted_outcome = lab, historical_confidence = 0.5, sentiment_confidence = 0.5,
      hybrid_confidence = 0.8, actual_outcome = None, is_correct = None,
      created_at = Some ''2025-01-01T00:00:00+00:00'', resolved_at = None\<rparr>"

definition example_resolved :: Prediction where
  "example_resolved =
     (example_pending ''local_1'' ''0xd1'' ''Yes'')
       \<lparr>actual_outcome := Some ''No'', is_correct := Some False,
        resolved_at := Some ''2025-01-15T00:00:00+00:00''\<rparr>"

definition example_scored :: Prediction where
  "example_scored =
     \<lparr>pid = Some ''local_1'', market_id = ''0xd1'', sport = ''nba'',
      event_name = ''Will the Lakers win?'', predicted_outcome = ''Yes'',
      historical_confidence = 0.3, sentiment_confidence = 0.8, hybrid_confidence = 0.8,
      actual_outcome = Some ''Yes'', is_correct = Some True,
      created_at = Some ''2025-01-01T00:00:00+00:00'',
      resolved_at = Some ''2025-02-01T00:00:00+00:00''\<rparr>"

text \<open>
  A store with one resolved and three pending rows, the clock, and the store and the
  counters after one scoring run against \<open>example_closed_market\<close>.
\<close>

definition example_db :: local_db where
  "example_db =
     \<lparr>rows = [example_resolved,
              example_pending ''local_2'' ''0xd1'' ''Yes'',
              example_pending ''local_3'' ''0xd9'' ''Yes'',
              example_pending ''local_4'' ''0xd1'' ''No''],
      clock_reads = 0\<rparr>"

definition example_clock :: "nat \<Rightarrow> string" where
  "example_clock k = ''2025-02-01T00:00:00+00:00''"

definition example_db_after :: local_db where
  "example_db_after =
     \<lparr>rows = [example_resolved,
              resolve_row ''2025-02-01T00:00:00+00:00'' ''Yes''
                (example_pending ''local_2'' ''0xd1'' ''Yes''),
              example_pending ''local_3'' ''0xd9'' ''Yes'',
              resolve_row ''2025-02-01T00:00:00+00:00'' ''Yes''
                (example_pending ''local_4'' ''0xd1'' ''No'')],
      clock_reads = 2\<rparr>"

definition example_results :: results where
  "example_results = \<lparr>total' = 3, scored = 2, correct = 1, wrong = 1, still_pending = 1\<rparr>"

text \<open>The prediction \<^verbatim>\<open>predict_market\<close> builds for \<open>example_open_market\<close>.\<close>

definition example_prediction :: "string \<Rightarrow> real \<Rightarrow> real \<Rightarrow> real \<Rightarrow> Prediction" where
  "example_prediction lab h s y =
     \<lparr>pid = None, market_id = ''0xe1'', sport = ''nba'', event_name = ''Will the Lakers win?'',
      predicted_outcome = lab, historical_confidence = h, sentiment_confidence = s,
      hybrid_confidence = y, actual_outcome = None, is_correct = None,
      created_at = None, resolved_at = None\<rparr>"

text \<open>Artifacts that answer 0.9 and 0.7, and a loader holding both but no meta-learner.\<close>

definition example_historical_artifact :: stage_artifact where
  "example_historical_artifact fs names = Inr 0.9"

definition example_sentiment_artifact :: stage_artifact where
  "example_sentiment_artifact fs names = Inr 0.7"

definition example_stage_loader :: ModelLoader where
  "example_stage_loader =
     \<lparr>historical_model = Some example_historical_artifact,
      sentiment_model = Some example_sentiment_artifact,
      meta_learner = None, scaler_params = None,
      feature_names = Some [''home_yes_price''], use_tf = False\<rparr>"




section \<open>Facts about the scorer\<close>

lemmas string_evals = lower_def lower_char_def upper_char_def dict_label_def

lemmas example_defs = example_closed_market_def example_object_market_def example_open_market_def
  example_pending_def example_resolved_def example_scored_def example_db_def example_clock_def
  example_db_after_def example_results_def example_prediction_def

lemmas scorer_defs = score_pending_local_def score_pending_predictions_def
  get_predictions_local_def market_lookup_def get_market_outcome_def score_prediction_def
  resolve_prediction_local_def resolve_row_def



lemma score_loop_counts:
  "score_loop rs lk ps res st = Inr (r, st') \<Longrightarrow>
     total' r = total' res \<and>
     scored r + still_pending r = scored res + still_pending res + int (length ps) \<and>
     correct r + wrong r - scored r = correct res + wrong res - scored res"
proof (induction ps arbitrary: res st)
  case Nil
  then show ?case by simp
next
  case (Cons p ps)
  then show ?case
    by (auto split: option.splits sum.splits if_splits prod.splits)
qed






text \<open>
  C10. Whenever \<^verbatim>\<open>score_pending_predictions\<close> returns a result dictionary, its counters
  satisfy \<open>total = scored + still_pending\<close> and \<open>scored = correct + wrong\<close>, whatever
  the persistence collaborator answers.
\<close>

theorem score_pending_counters:
  assumes "score_pending_predictions rs all_predictions all_markets st = Inr (r, st')"
  shows "total' r = scored r + still_pending r \<and> scored r = correct r + wrong r"
  using assms score_loop_counts
  unfolding score_pending_predictions_def Let_def
  by (fastforce split: if_splits)

theorem score_pending_counters_witness:
  "score_pending_predictions (resolve_prediction_local example_clock) (rows example_db)
      [example_closed_market] example_db = Inr (example_results, example_db_after) \<and>
   total' example_results = scored example_results + still_pending example_results \<and>
   scored example_results = correct example_results + wrong example_results"
proof -
  have run: "score_pending_predictions (resolve_prediction_local example_clock) (rows example_db)
      [example_closed_market] example_db = Inr (example_results, example_db_after)"
    by (simp add: example_defs scorer_defs string_evals)
  show ?thesis
    using score_pending_counters [OF run] run by simp
qed

section \<open>Scoring leaves resolved predictions alone\<close>
















section \<open>Facts about the predictor\<close>

lemmas predictor_defs = predict_market_def extract_features_def detect_sport_def SPORT_KEYWORDS_def
  stage_confidence_def hybrid_of_def new_loader_def

lemma read_prices_yes:
  "fst (read_prices ts (y, n)) = (if yes_prices ts = [] then y else last (yes_prices ts))"
proof (induction ts arbitrary: y n)
  case Nil
  then show ?case by (simp add: yes_prices_def)
next
  case (Cons t ts)
  show ?case
  proof (cases t)
    case (TokenObj k)
    then show ?thesis using Cons
      by (cases "price k") (auto simp: yes_prices_def)
  next
    case (TokenMap d)
    then show ?thesis using Cons
      by (auto simp: yes_prices_def)
  qed
qed

lemma home_yes_price_raw: "home_yes_price (extract_features market) = raw_yes_price market"
  using read_prices_yes [of "tokens market" "0.5" "0.5"]
  by (auto simp: extract_features_def raw_yes_price_def split: prod.splits)


text \<open>
  C7. The label of every prediction \<^verbatim>\<open>predict_market\<close> emits is \<open>Yes\<close> when its hybrid
  confidence exceeds 0.5 and \<open>No\<close> otherwise; at exactly 0.5 it is \<open>No\<close>.
\<close>

theorem predict_market_label:
  assumes "predict_market models market = Some p"
  shows "predicted_outcome p = (if hybrid_confidence p > 0.5 then ''Yes'' else ''No'') \<and>
         (hybrid_confidence p = 0.5 \<longrightarrow> predicted_outcome p = ''No'')"
  using assms
  by (auto simp: predict_market_def Let_def split: if_splits)

text \<open>A market priced 0.5 / 0.5 and no model loaded: the tie gives \<open>No\<close>.\<close>

theorem predict_market_label_witness:
  "predict_market new_loader (example_open_market 0.5 0.5) =
     Some (example_prediction ''No'' 0.5 0.5 0.5) \<and>
   hybrid_confidence (example_prediction ''No'' 0.5 0.5 0.5) = 0.5 \<and>
   predicted_outcome (example_prediction ''No'' 0.5 0.5 0.5) = ''No''"
proof -
  have run: "predict_market new_loader (example_open_market 0.5 0.5) =
     Some (example_prediction ''No'' 0.5 0.5 0.5)"
    by (simp add: predictor_defs example_defs string_evals)
  show ?thesis
    using predict_market_label [OF run] run by (simp add: example_prediction_def)
qed

text \<open>
  C5. When neither stage model nor a meta-learner is loaded, \<^verbatim>\<open>predict_market\<close> returns
  no prediction exactly for the markets whose sport is \<open>other\<close>, and for every other
  market a prediction whose hybrid confidence is the yes-price \<^verbatim>\<open>extract_features\<close> read
  from the tokens, which is the market's raw yes-price (0.5 without a priced \<open>Yes\<close>
  token).
\<close>

theorem predict_market_degrades_to_yes_price:
  assumes "historical_model models = None" and "sentiment_model models = None"
    and "meta_learner models = None"
  shows "case predict_market models market of
           None \<Rightarrow> detect_sport (question market) = ''other''
         | Some p \<Rightarrow> detect_sport (question market) \<noteq> ''other'' \<and>
                     hybrid_confidence p = home_yes_price (extract_features market) \<and>
                     hybrid_confidence p = raw_yes_price market"
  using assms home_yes_price_raw [of market]
  by (simp add: predict_market_def Let_def hybrid_of_def extract_features_def split: prod.splits)

text \<open>The scenario of the specification: yes-price 0.8 and no models give 0.8 and \<open>Yes\<close>.\<close>

theorem predict_market_degrades_to_yes_price_witness:
  "predict_market new_loader (example_open_market 0.8 0.2) =
     Some (example_prediction ''Yes'' 0.5 0.5 0.8) \<and>
   raw_yes_price (example_open_market 0.8 0.2) = 0.8"
proof -
  have run: "predict_market new_loader (example_open_market 0.8 0.2) =
     Some (example_prediction ''Yes'' 0.5 0.5 0.8)"
    by (simp add: predictor_defs example_defs string_evals)
  show ?thesis
    using predict_market_degrades_to_yes_price [of new_loader "example_open_market 0.8 0.2"] run
    by (simp add: new_loader_def example_prediction_def)
qed

text \<open>
  C2. With both stage models loaded and no meta-learner, \<^verbatim>\<open>predict_market\<close> takes the
  market's yes-price as hybrid confidence: stage outputs 0.9 and 0.7 and a yes-price of
  0.3 give 0.3 and the label \<open>No\<close>, where the weighted average with weight 0.5 is 0.8.
\<close>

theorem predict_market_ignores_stage_models:
  "predict_market example_stage_loader (example_open_market 0.3 0.7) =
     Some (example_prediction ''No'' 0.9 0.7 0.3) \<and>
   (0.3::real) \<noteq> 0.5 * 0.9 + (1 - 0.5) * 0.7"
  by (simp add: predictor_defs example_stage_loader_def example_historical_artifact_def
        example_sentiment_artifact_def example_defs string_evals)







section \<open>Facts about the metrics\<close>

lemmas metrics_defs = update_metrics_def update_model_metrics_def stage_metrics_def get_conf_def

text \<open>
  C3. One resolved prediction with outcome \<open>Yes\<close>, label \<open>Yes\<close> and historical
  confidence 0.3. For the historical stage \<^verbatim>\<open>update_metrics\<close> returns one prediction,
  none correct; what it stores in \<^verbatim>\<open>model_metrics\<close> for that stage is one prediction,
  one correct, accuracy 1.
\<close>

theorem update_metrics_persists_other_counts:
  "map_of (fst (update_metrics True ''2025-02-02T00:00:00+00:00'' [example_scored] Map.empty))
      ''historical'' =
     Some \<lparr>model_type = ''historical'', accuracy_7d = 0, accuracy_30d = 0,
           total_predictions = 1, correct_predictions = 0, updated_at = None\<rparr> \<and>
   snd (update_metrics True ''2025-02-02T00:00:00+00:00'' [example_scored] Map.empty)
      ''historical'' =
     Some \<lparr>model_type = ''historical'', accuracy_7d = 1, accuracy_30d = 1,
           total_predictions = 1, correct_predictions = 1,
           updated_at = Some ''2025-02-02T00:00:00+00:00''\<rparr>"
  by (simp add: metrics_defs example_scored_def string_evals Let_def)

end
